theory Spec2Isabelle
  imports Complex_Main
begin

section \<open>softParticle.H: the particle class of lammpsFoam\<close>

subsection \<open>Primitive types\<close>

text \<open>
  \<^verbatim>\<open>scalar\<close> is OpenFOAM's floating-point type; it is modelled by the reals, so every
  result below is about exact arithmetic. \<^verbatim>\<open>label\<close> is OpenFOAM's integer type; the
  class only stores and copies labels, so they are modelled by the integers.
  A \<^verbatim>\<open>vector\<close> has three scalar components and a \<^verbatim>\<open>tensor\<close> nine, row by row.
\<close>

type_synonym scalar = real

type_synonym label = int

datatype vector = Vector (vx: scalar) (vy: scalar) (vz: scalar)

datatype tensor = Tensor (txx: scalar) (txy: scalar) (txz: scalar)
                         (tyx: scalar) (tyy: scalar) (tyz: scalar)
                         (tzx: scalar) (tzy: scalar) (tzz: scalar)

definition vector_zero :: vector where
  "vector_zero = Vector 0 0 0"

subsection \<open>Member data\<close>

text \<open>
  \<^verbatim>\<open>class softParticle : public particle\<close>. The base class belongs to OpenFOAM
  (\<^verbatim>\<open>particle.H\<close>); of its state the model keeps what the component constructor of
  \<^verbatim>\<open>softParticle\<close> hands to it, the position and the cell index. The thirteen private
  members of \<^verbatim>\<open>softParticle\<close> follow in their order of declaration; a name cannot
  end in an underscore here, so the member \<^verbatim>\<open>d_\<close> is the field \<open>d_field\<close>, and so on.
\<close>

record particle =
  position :: vector
  celli :: label

record softParticle = particle +
  d_field :: scalar
  mass_field :: scalar
  U_field :: vector
  moveU_field :: vector
  ensembleU_field :: vector
  positionOld_field :: vector
  UOld_field :: vector
  tag_field :: label
  lmpCpuId_field :: label
  type_field :: label
  density_field :: scalar
  n0_field :: scalar
  sumDeltaFb_field :: vector

subsection \<open>Access\<close>

text \<open>
  Every accessor returns a non-const reference to one member:
  \<^verbatim>\<open>scalar& d() { return d_; }\<close> and so on. A reference is modelled by the name of
  the accessor that returned it, one datatype per member type; reading through the
  reference selects the member and assigning through it overwrites the member.
  There are twelve accessors for thirteen members: none returns \<^verbatim>\<open>density_\<close>.
\<close>

datatype scalar_accessor = d | m | n0

datatype vector_accessor = U | moveU | ensembleU | positionOld | UOld | sumDeltaFb

datatype label_accessor = ptag | pLmpCpuId | ptype

fun read_scalar :: "scalar_accessor \<Rightarrow> softParticle \<Rightarrow> scalar" where
  "read_scalar d p = d_field p"
| "read_scalar m p = mass_field p"
| "read_scalar n0 p = n0_field p"

fun read_vector :: "vector_accessor \<Rightarrow> softParticle \<Rightarrow> vector" where
  "read_vector U p = U_field p"
| "read_vector moveU p = moveU_field p"
| "read_vector ensembleU p = ensembleU_field p"
| "read_vector positionOld p = positionOld_field p"
| "read_vector UOld p = UOld_field p"
| "read_vector sumDeltaFb p = sumDeltaFb_field p"

fun read_label :: "label_accessor \<Rightarrow> softParticle \<Rightarrow> label" where
  "read_label ptag p = tag_field p"
| "read_label pLmpCpuId p = lmpCpuId_field p"
| "read_label ptype p = type_field p"

fun assign_scalar :: "scalar_accessor \<Rightarrow> scalar \<Rightarrow> softParticle \<Rightarrow> softParticle" where
  "assign_scalar d v p = p\<lparr>d_field := v\<rparr>"
| "assign_scalar m v p = p\<lparr>mass_field := v\<rparr>"
| "assign_scalar n0 v p = p\<lparr>n0_field := v\<rparr>"

fun assign_vector :: "vector_accessor \<Rightarrow> vector \<Rightarrow> softParticle \<Rightarrow> softParticle" where
  "assign_vector U v p = p\<lparr>U_field := v\<rparr>"
| "assign_vector moveU v p = p\<lparr>moveU_field := v\<rparr>"
| "assign_vector ensembleU v p = p\<lparr>ensembleU_field := v\<rparr>"
| "assign_vector positionOld v p = p\<lparr>positionOld_field := v\<rparr>"
| "assign_vector UOld v p = p\<lparr>UOld_field := v\<rparr>"
| "assign_vector sumDeltaFb v p = p\<lparr>sumDeltaFb_field := v\<rparr>"

fun assign_label :: "label_accessor \<Rightarrow> label \<Rightarrow> softParticle \<Rightarrow> softParticle" where
  "assign_label ptag v p = p\<lparr>tag_field := v\<rparr>"
| "assign_label pLmpCpuId v p = p\<lparr>lmpCpuId_field := v\<rparr>"
| "assign_label ptype v p = p\<lparr>type_field := v\<rparr>"








text \<open>\<^verbatim>\<open>scalar Vol() { return constant::mathematical::pi*d_*d_*d_/6.0; }\<close>\<close>

definition Vol :: "softParticle \<Rightarrow> scalar" where
  "Vol p = pi * d_field p * d_field p * d_field p / 6"

subsection \<open>Copying\<close>

text \<open>
  The declaration that would disallow copy construction is commented out, so the class
  has the implicit copy constructor, which copies the base sub-object and every member.
\<close>

definition softParticle_copy :: "softParticle \<Rightarrow> softParticle" where
  "softParticle_copy p =
     \<lparr> position = position p, celli = celli p,
       d_field = d_field p, mass_field = mass_field p, U_field = U_field p, moveU_field = moveU_field p,
       ensembleU_field = ensembleU_field p, positionOld_field = positionOld_field p, UOld_field = UOld_field p,
       tag_field = tag_field p, lmpCpuId_field = lmpCpuId_field p, type_field = type_field p,
       density_field = density_field p, n0_field = n0_field p, sumDeltaFb_field = sumDeltaFb_field p \<rparr>"

text \<open>
  \<^verbatim>\<open>clone() const { return autoPtr<particle>(new softParticle(*this)); }\<close>
  allocates an object, so the particles live in a store: a list of objects, an address
  being an index into it. Allocation appends the new object and returns its address.
  \<^verbatim>\<open>clone\<close> is a member function, so \<^verbatim>\<open>this\<close> is the address of a live object; the
  model returns \<open>None\<close> for an address outside the store.
\<close>

type_synonym store = "softParticle list"

definition allocate :: "softParticle \<Rightarrow> store \<Rightarrow> store \<times> nat" where
  "allocate p s = (s @ [p], length s)"

definition clone :: "store \<Rightarrow> nat \<Rightarrow> (store \<times> nat) option" where
  "clone s this =
     (if this < length s then Some (allocate (softParticle_copy (s ! this)) s) else None)"

subsection \<open>Contiguity\<close>

text \<open>
  \<^verbatim>\<open>template<> inline bool contiguous<softParticle>() { return true; }\<close>
\<close>

definition contiguous_softParticle :: bool where
  "contiguous_softParticle = True"

section \<open>Member functions that the header only declares\<close>

text \<open>
  The component constructor, \<^verbatim>\<open>calculateDerived\<close> and the two \<^verbatim>\<open>transformProperties\<close>
  are declared in the header and defined in \<^verbatim>\<open>softParticle.C\<close>, whose text is not
  available. Their models below follow the specification's description of them.
\<close>

text \<open>
  Modelled from the spec: the body of \<^verbatim>\<open>calculateDerived\<close> (declared in the header with the
  comment "Calculate important properties", defined in \<^verbatim>\<open>softParticle.C\<close>) is missing.
  The specification derives one member from others, the mass, "derived from diameter and
  density", with \<^verbatim>\<open>mass == density * (pi/6) * diameter^3\<close>; the volume is taken from
  \<^verbatim>\<open>Vol()\<close>, which the header defines.
\<close>

definition calculateDerived :: "softParticle \<Rightarrow> softParticle" where
  "calculateDerived p = p\<lparr>mass_field := density_field p * Vol p\<rparr>"

text \<open>
  Modelled from the spec: the body of the constructor from components (declared in the
  header, defined in \<^verbatim>\<open>softParticle.C\<close>) is missing. By the specification a particle is
  created "fresh, from components supplied by the external feed (position, diameter,
  velocity, density, globalId, partition id, type), with all previous/history fields
  zero-initialized", its mass is derived, and a non-positive diameter or density is
  "fatal at construction time". The specification names no initial value for
  \<^verbatim>\<open>moveU_\<close> and \<^verbatim>\<open>ensembleU_\<close>; they start at zero here and no result depends on it.
  The mesh argument only locates the particle and is left out.
\<close>

datatype error = InvalidPhysicalState

definition softParticle_from_components ::
  "vector \<Rightarrow> label \<Rightarrow> scalar \<Rightarrow> vector \<Rightarrow> scalar \<Rightarrow> label \<Rightarrow> label \<Rightarrow> label
     \<Rightarrow> error + softParticle" where
  "softParticle_from_components pos cell diam vel rhos tag lmpCpuId ty =
     (if diam \<le> 0 \<or> rhos \<le> 0 then Inl InvalidPhysicalState
      else Inr (calculateDerived
        \<lparr> position = pos, celli = cell,
          d_field = diam, mass_field = 0, U_field = vel, moveU_field = vector_zero,
          ensembleU_field = vector_zero, positionOld_field = vector_zero,
          UOld_field = vector_zero, tag_field = tag, lmpCpuId_field = lmpCpuId,
          type_field = ty, density_field = rhos, n0_field = 0,
          sumDeltaFb_field = vector_zero \<rparr>))"

text \<open>
  OpenFOAM's \<^verbatim>\<open>transform(T, v)\<close> of a vector by a tensor is the inner product
  \<^verbatim>\<open>T & v\<close>.
\<close>

definition transform :: "tensor \<Rightarrow> vector \<Rightarrow> vector" where
  "transform T v =
     Vector (txx T * vx v + txy T * vy v + txz T * vz v)
            (tyx T * vx v + tyy T * vy v + tyz T * vz v)
            (tzx T * vx v + tzy T * vy v + tzz T * vz v)"

text \<open>
  Modelled from the spec: the bodies of the two \<^verbatim>\<open>transformProperties\<close> (declared in the
  header, defined in \<^verbatim>\<open>softParticle.C\<close>) are missing. By the specification, under a
  coordinate transform "the velocity-bearing fields (velocityExternal,
  velocityForAdvection, velocityPrevious, historyForceSum) must be transformed
  consistently; scalar fields are untouched". A translational separation moves the
  frame without turning it, so it changes no velocity and no scalar.
\<close>

definition transformProperties_tensor :: "tensor \<Rightarrow> softParticle \<Rightarrow> softParticle" where
  "transformProperties_tensor T p =
     p\<lparr> U_field := transform T (U_field p),
        moveU_field := transform T (moveU_field p),
        UOld_field := transform T (UOld_field p),
        sumDeltaFb_field := transform T (sumDeltaFb_field p) \<rparr>"

definition transformProperties_separation :: "vector \<Rightarrow> softParticle \<Rightarrow> softParticle" where
  "transformProperties_separation separation p = p"

subsection \<open>A concrete particle\<close>

text \<open>
  A particle of diameter 2, density 3 and mass 5 in cell 7, with non-zero velocities and
  history; the closed examples below are evaluated on it.
\<close>

definition sample_particle :: softParticle where
  "sample_particle =
     \<lparr> position = Vector 1 2 3, celli = 7,
       d_field = 2, mass_field = 5, U_field = Vector 1 0 0, moveU_field = Vector 0 1 0,
       ensembleU_field = Vector 0 0 1, positionOld_field = Vector 4 5 6,
       UOld_field = Vector 1 1 0, tag_field = 42, lmpCpuId_field = 3, type_field = 1,
       density_field = 3, n0_field = 4, sumDeltaFb_field = Vector 2 0 1 \<rparr>"

section \<open>Properties\<close>

subsection \<open>Helper facts\<close>

lemma softParticle_copy_id: "softParticle_copy p = p"
  by (simp add: softParticle_copy_def)

subsection \<open>Contiguity\<close>

text \<open>
  C3. The specialisation \<^verbatim>\<open>contiguous<softParticle>()\<close> returns true: the class declares
  its objects to be of fixed size and contiguous, which is what allows a list of them to be
  transferred as one binary block.
\<close>

theorem contiguous_softParticle_holds: "contiguous_softParticle = True"
  by (simp add: contiguous_softParticle_def)

subsection \<open>clone\<close>

text \<open>
  C9. For a live object \<open>this\<close>, \<^verbatim>\<open>clone()\<close> returns the address of a newly allocated
  object, different from every address in use before the call, whose base part and
  thirteen members equal those of \<open>this\<close>; every object of the store before the call,
  \<open>this\<close> among them, is unchanged after it.
\<close>

theorem clone_copies_every_field:
  assumes "this < length s"
  shows "\<exists>s' a. clone s this = Some (s', a)
           \<and> a = length s \<and> length s' = Suc (length s)
           \<and> position (s' ! a) = position (s ! this)
           \<and> celli (s' ! a) = celli (s ! this)
           \<and> d_field (s' ! a) = d_field (s ! this)
           \<and> mass_field (s' ! a) = mass_field (s ! this)
           \<and> U_field (s' ! a) = U_field (s ! this)
           \<and> moveU_field (s' ! a) = moveU_field (s ! this)
           \<and> ensembleU_field (s' ! a) = ensembleU_field (s ! this)
           \<and> positionOld_field (s' ! a) = positionOld_field (s ! this)
           \<and> UOld_field (s' ! a) = UOld_field (s ! this)
           \<and> tag_field (s' ! a) = tag_field (s ! this)
           \<and> lmpCpuId_field (s' ! a) = lmpCpuId_field (s ! this)
           \<and> type_field (s' ! a) = type_field (s ! this)
           \<and> density_field (s' ! a) = density_field (s ! this)
           \<and> n0_field (s' ! a) = n0_field (s ! this)
           \<and> sumDeltaFb_field (s' ! a) = sumDeltaFb_field (s ! this)
           \<and> s' ! this = s ! this
           \<and> (\<forall>i<length s. s' ! i = s ! i)"
  using assms
  by (simp add: clone_def allocate_def softParticle_copy_id nth_append)

theorem clone_copies_every_field_witness:
  "(0::nat) < length [sample_particle]
   \<and> clone [sample_particle] 0 = Some ([sample_particle, sample_particle], 1)"
proof -
  have live: "(0::nat) < length [sample_particle]"
    by simp
  from clone_copies_every_field [OF live]
  obtain s' a where c: "clone [sample_particle] 0 = Some (s', a)"
    by blast
  then show ?thesis
    by (simp add: clone_def allocate_def softParticle_copy_id)
qed

subsection \<open>Assignment through the accessors\<close>

text \<open>
  C10. An assignment through an accessor stores the assigned value, whatever it is, in
  the member the accessor returns, and changes nothing else: reading through the same
  accessor gives the assigned value, reading through any other accessor gives what it
  gave before, and \<^verbatim>\<open>density_\<close>, the position and the cell are as before. This holds
  for the three scalar accessors \<^verbatim>\<open>d\<close>, \<^verbatim>\<open>m\<close>, \<^verbatim>\<open>n0\<close>, the six vector accessors
  and the three label accessors; no value is refused, a diameter of zero or below
  included.
\<close>

theorem accessor_assignment_frame:
  "read_scalar a (assign_scalar a v p) = v
   \<and> (\<forall>a'. a' \<noteq> a \<longrightarrow> read_scalar a' (assign_scalar a v p) = read_scalar a' p)
   \<and> (\<forall>b'. read_vector b' (assign_scalar a v p) = read_vector b' p)
   \<and> (\<forall>c'. read_label c' (assign_scalar a v p) = read_label c' p)
   \<and> density_field (assign_scalar a v p) = density_field p
   \<and> position (assign_scalar a v p) = position p
   \<and> celli (assign_scalar a v p) = celli p
   \<and> read_vector b (assign_vector b w p) = w
   \<and> (\<forall>b'. b' \<noteq> b \<longrightarrow> read_vector b' (assign_vector b w p) = read_vector b' p)
   \<and> (\<forall>a'. read_scalar a' (assign_vector b w p) = read_scalar a' p)
   \<and> (\<forall>c'. read_label c' (assign_vector b w p) = read_label c' p)
   \<and> density_field (assign_vector b w p) = density_field p
   \<and> position (assign_vector b w p) = position p
   \<and> celli (assign_vector b w p) = celli p
   \<and> read_label c (assign_label c l p) = l
   \<and> (\<forall>c'. c' \<noteq> c \<longrightarrow> read_label c' (assign_label c l p) = read_label c' p)
   \<and> (\<forall>a'. read_scalar a' (assign_label c l p) = read_scalar a' p)
   \<and> (\<forall>b'. read_vector b' (assign_label c l p) = read_vector b' p)
   \<and> density_field (assign_label c l p) = density_field p
   \<and> position (assign_label c l p) = position p
   \<and> celli (assign_label c l p) = celli p"
proof -
  have s1: "read_scalar a (assign_scalar a v p) = v"
    by (cases a) simp_all
  have s2: "a' \<noteq> a \<Longrightarrow> read_scalar a' (assign_scalar a v p) = read_scalar a' p" for a'
    by (cases a; cases a') simp_all
  have s3: "read_vector b' (assign_scalar a v p) = read_vector b' p" for b'
    by (cases a; cases b') simp_all
  have s4: "read_label c' (assign_scalar a v p) = read_label c' p" for c'
    by (cases a; cases c') simp_all
  have s5: "density_field (assign_scalar a v p) = density_field p
            \<and> position (assign_scalar a v p) = position p
            \<and> celli (assign_scalar a v p) = celli p"
    by (cases a) simp_all
  have v1: "read_vector b (assign_vector b w p) = w"
    by (cases b) simp_all
  have v2: "b' \<noteq> b \<Longrightarrow> read_vector b' (assign_vector b w p) = read_vector b' p" for b'
    by (cases b; cases b') simp_all
  have v3: "read_scalar a' (assign_vector b w p) = read_scalar a' p" for a'
    by (cases b; cases a') simp_all
  have v4: "read_label c' (assign_vector b w p) = read_label c' p" for c'
    by (cases b; cases c') simp_all
  have v5: "density_field (assign_vector b w p) = density_field p
            \<and> position (assign_vector b w p) = position p
            \<and> celli (assign_vector b w p) = celli p"
    by (cases b) simp_all
  have l1: "read_label c (assign_label c l p) = l"
    by (cases c) simp_all
  have l2: "c' \<noteq> c \<Longrightarrow> read_label c' (assign_label c l p) = read_label c' p" for c'
    by (cases c; cases c') simp_all
  have l3: "read_scalar a' (assign_label c l p) = read_scalar a' p" for a'
    by (cases c; cases a') simp_all
  have l4: "read_vector b' (assign_label c l p) = read_vector b' p" for b'
    by (cases c; cases b') simp_all
  have l5: "density_field (assign_label c l p) = density_field p
            \<and> position (assign_label c l p) = position p
            \<and> celli (assign_label c l p) = celli p"
    by (cases c) simp_all
  show ?thesis
    using s1 s2 s3 s4 s5 v1 v2 v3 v4 v5 l1 l2 l3 l4 l5 by blast
qed

theorem accessor_assignment_frame_witness:
  "d_field (assign_scalar d (- 1) sample_particle) = - 1
   \<and> mass_field (assign_scalar d (- 1) sample_particle) = 5
   \<and> n0_field (assign_scalar d (- 1) sample_particle) = 4
   \<and> density_field (assign_scalar d (- 1) sample_particle) = 3
   \<and> U_field (assign_vector sumDeltaFb vector_zero sample_particle) = Vector 1 0 0
   \<and> sumDeltaFb_field (assign_vector sumDeltaFb vector_zero sample_particle) = vector_zero
   \<and> tag_field (assign_label ptype 9 sample_particle) = 42
   \<and> type_field (assign_label ptype 9 sample_particle) = 9"
  using accessor_assignment_frame
    [of d "- 1" sample_particle sumDeltaFb vector_zero ptype 9]
  by (simp add: sample_particle_def)

subsection \<open>The history members\<close>














subsection \<open>Positivity of diameter, mass and density\<close>











subsection \<open>Derived mass\<close>

text \<open>
  C2. For a particle of positive diameter and positive density, after
  \<^verbatim>\<open>calculateDerived\<close> the mass is the density times \<open>pi/6\<close> times the cube of the
  diameter, over the reals; the volume that \<^verbatim>\<open>Vol()\<close> returns is \<open>pi/6\<close> times that cube,
  and the mass is positive.
\<close>

theorem mass_volume_consistency:
  assumes "0 < d_field p" and "0 < density_field p"
  shows "mass_field (calculateDerived p) = density_field p * (pi / 6) * d_field p ^ 3
         \<and> Vol p = (pi / 6) * d_field p ^ 3
         \<and> 0 < mass_field (calculateDerived p)"
proof -
  have vol: "Vol p = (pi / 6) * d_field p ^ 3"
    by (simp add: Vol_def power3_eq_cube)
  have mass: "mass_field (calculateDerived p) = density_field p * Vol p"
    by (simp add: calculateDerived_def)
  have "0 < (pi / 6) * d_field p ^ 3"
    using assms(1) by simp
  then have "0 < Vol p"
    by (simp only: vol)
  with assms(2) have "0 < density_field p * Vol p"
    by (rule mult_pos_pos)
  then have mpos: "0 < mass_field (calculateDerived p)"
    by (simp only: mass)
  have "mass_field (calculateDerived p) = density_field p * (pi / 6) * d_field p ^ 3"
    by (simp add: mass vol)
  with vol mpos show ?thesis
    by blast
qed

theorem mass_volume_consistency_witness:
  "0 < d_field sample_particle \<and> 0 < density_field sample_particle
   \<and> mass_field (calculateDerived sample_particle) = 3 * (pi / 6) * 2 ^ 3
   \<and> Vol sample_particle = (pi / 6) * 2 ^ 3"
proof -
  have dpos: "0 < d_field sample_particle"
    by (simp add: sample_particle_def)
  have rpos: "0 < density_field sample_particle"
    by (simp add: sample_particle_def)
  show ?thesis
    using dpos rpos mass_volume_consistency [OF dpos rpos]
    by (simp add: sample_particle_def)
qed

subsection \<open>Transformation of the properties\<close>

text \<open>
  C4. \<^verbatim>\<open>transformProperties\<close> with a tensor transforms each of the four velocity-bearing
  members \<^verbatim>\<open>U_\<close>, \<^verbatim>\<open>moveU_\<close>, \<^verbatim>\<open>UOld_\<close> and \<^verbatim>\<open>sumDeltaFb_\<close> by that tensor, a rotation
  in particular, and leaves diameter, mass and density unchanged;
  \<^verbatim>\<open>transformProperties\<close> with a separation vector leaves diameter, mass and density
  unchanged as well.
\<close>

theorem transformProperties_consistency:
  "U_field (transformProperties_tensor T p) = transform T (U_field p)
   \<and> moveU_field (transformProperties_tensor T p) = transform T (moveU_field p)
   \<and> UOld_field (transformProperties_tensor T p) = transform T (UOld_field p)
   \<and> sumDeltaFb_field (transformProperties_tensor T p) = transform T (sumDeltaFb_field p)
   \<and> d_field (transformProperties_tensor T p) = d_field p
   \<and> mass_field (transformProperties_tensor T p) = mass_field p
   \<and> density_field (transformProperties_tensor T p) = density_field p
   \<and> d_field (transformProperties_separation sep p) = d_field p
   \<and> mass_field (transformProperties_separation sep p) = mass_field p
   \<and> density_field (transformProperties_separation sep p) = density_field p"
  by (simp add: transformProperties_tensor_def transformProperties_separation_def)

subsection \<open>Construction from components\<close>

text \<open>
  C7. Construction from components with a positive diameter and a positive density
  succeeds, and in the particle it returns the previous position, the previous velocity
  and the history force sum are the zero vector and the history step count is zero,
  whatever the position, velocity, identity, processor and type supplied.
\<close>

theorem fresh_particle_history_zero:
  assumes "0 < diam" and "0 < rhos"
  shows "\<exists>p. softParticle_from_components pos cell diam vel rhos tag lmpCpuId ty = Inr p
           \<and> positionOld_field p = vector_zero
           \<and> UOld_field p = vector_zero
           \<and> n0_field p = 0
           \<and> sumDeltaFb_field p = vector_zero"
  using assms
  by (simp add: softParticle_from_components_def calculateDerived_def)

theorem fresh_particle_history_zero_witness:
  "(0::real) < 2 \<and> (0::real) < 3
   \<and> (\<exists>p. softParticle_from_components (Vector 1 2 3) 7 2 (Vector 1 0 0) 3 42 3 1 = Inr p
          \<and> positionOld_field p = Vector 0 0 0
          \<and> UOld_field p = Vector 0 0 0
          \<and> n0_field p = 0
          \<and> sumDeltaFb_field p = Vector 0 0 0)"
proof -
  have dpos: "(0::real) < 2"
    by simp
  have rpos: "(0::real) < 3"
    by simp
  show ?thesis
    using fresh_particle_history_zero
      [OF dpos rpos, of "Vector 1 2 3" 7 "Vector 1 0 0" 42 3 1]
    by (simp add: vector_zero_def)
qed

end
